theory Spec2Isabelle
  imports Complex_Main
begin

section \<open>JavaScript numbers\<close>

text \<open>
  The program computes with JavaScript numbers. Finite values are idealised as reals
  (rounding of doubles is not modelled); the three special values are kept, because
  \<^verbatim>\<open>Date.parse\<close> returns \<^verbatim>\<open>NaN\<close> on an unparsable date and
  \<^verbatim>\<open>ttls.forever\<close> returns \<^verbatim>\<open>Infinity\<close>.
\<close>

datatype number = Fin real | PInf | NInf | NaN

fun js_neg :: "number \<Rightarrow> number" where
  "js_neg (Fin x) = Fin (- x)"
| "js_neg PInf = NInf"
| "js_neg NInf = PInf"
| "js_neg NaN = NaN"

fun js_add :: "number \<Rightarrow> number \<Rightarrow> number" where
  "js_add NaN _ = NaN"
| "js_add _ NaN = NaN"
| "js_add (Fin x) (Fin y) = Fin (x + y)"
| "js_add PInf NInf = NaN"
| "js_add NInf PInf = NaN"
| "js_add PInf _ = PInf"
| "js_add _ PInf = PInf"
| "js_add NInf _ = NInf"
| "js_add _ NInf = NInf"

definition js_sub :: "number \<Rightarrow> number \<Rightarrow> number" where
  "js_sub a b = js_add a (js_neg b)"

text \<open>Division by a positive finite constant (the code divides by 10).\<close>

fun js_div_pos :: "number \<Rightarrow> real \<Rightarrow> number" where
  "js_div_pos (Fin x) d = Fin (x / d)"
| "js_div_pos PInf d = PInf"
| "js_div_pos NInf d = NInf"
| "js_div_pos NaN d = NaN"

text \<open>The comparison \<^verbatim>\<open>a < b\<close>: false as soon as one side is \<^verbatim>\<open>NaN\<close>.\<close>

fun js_lt :: "number \<Rightarrow> number \<Rightarrow> bool" where
  "js_lt NaN _ = False"
| "js_lt _ NaN = False"
| "js_lt (Fin x) (Fin y) = (x < y)"
| "js_lt _ NInf = False"
| "js_lt NInf _ = True"
| "js_lt PInf _ = False"
| "js_lt _ PInf = True"

text \<open>\<^verbatim>\<open>Math.min\<close> of two numbers.\<close>

fun js_min :: "number \<Rightarrow> number \<Rightarrow> number" where
  "js_min NaN _ = NaN"
| "js_min _ NaN = NaN"
| "js_min a b = (if js_lt b a then b else a)"

text \<open>\<open>0 \<le> x\<close> for a JavaScript number; \<^verbatim>\<open>NaN\<close> is not non-negative.\<close>

fun js_nonneg :: "number \<Rightarrow> bool" where
  "js_nonneg (Fin x) = (0 \<le> x)"
| "js_nonneg PInf = True"
| "js_nonneg NInf = False"
| "js_nonneg NaN = False"

section \<open>Characters and the regular expressions of the header parser\<close>

definition is_digit :: "char \<Rightarrow> bool" where
  "is_digit c = (48 \<le> (of_char c :: nat) \<and> (of_char c :: nat) \<le> 57)"

definition is_upper :: "char \<Rightarrow> bool" where
  "is_upper c = (65 \<le> (of_char c :: nat) \<and> (of_char c :: nat) \<le> 90)"

definition is_lower :: "char \<Rightarrow> bool" where
  "is_lower c = (97 \<le> (of_char c :: nat) \<and> (of_char c :: nat) \<le> 122)"

text \<open>The class \<^verbatim>\<open>\w\<close>, whose edges are the word boundaries \<^verbatim>\<open>\b\<close>.\<close>

definition is_word :: "char \<Rightarrow> bool" where
  "is_word c = (is_digit c \<or> is_upper c \<or> is_lower c \<or> c = CHR ''_'')"

text \<open>ASCII case folding, as the \<^verbatim>\<open>i\<close> flag applies it to an ASCII pattern.\<close>

definition to_lower :: "char \<Rightarrow> char" where
  "to_lower c = (if is_upper c then char_of ((of_char c :: nat) + 32) else c)"

definition lower_string :: "string \<Rightarrow> string" where
  "lower_string s = map to_lower s"

text \<open>
  \<open>strip_prefix_ci lit s\<close>: when \<open>s\<close> starts with \<open>lit\<close> up to ASCII case, the rest of
  \<open>s\<close> after it.
\<close>

fun strip_prefix_ci :: "string \<Rightarrow> string \<Rightarrow> string option" where
  "strip_prefix_ci [] s = Some s"
| "strip_prefix_ci (l # ls) [] = None"
| "strip_prefix_ci (l # ls) (c # cs) =
     (if to_lower l = to_lower c then strip_prefix_ci ls cs else None)"

text \<open>A position is followed by a word boundary when the text ends or goes on with a
  non-word character (the character before it being a word character).\<close>

definition boundary_after :: "string \<Rightarrow> bool" where
  "boundary_after s = (case s of [] \<Rightarrow> True | c # _ \<Rightarrow> \<not> is_word c)"

text \<open>
  \<^verbatim>\<open>/\blit\b/i.test(s)\<close> for a literal that starts and ends with a word character.
  The flag \<open>prev\<close> tells whether the character before the current position is a word
  character.
\<close>

fun test_word_from :: "string \<Rightarrow> bool \<Rightarrow> string \<Rightarrow> bool" where
  "test_word_from lit prev [] = False"
| "test_word_from lit prev (c # cs) =
     ((\<not> prev \<and> (case strip_prefix_ci lit (c # cs) of
                     None \<Rightarrow> False
                   | Some rest \<Rightarrow> boundary_after rest))
      \<or> test_word_from lit (is_word c) cs)"

definition test_word :: "string \<Rightarrow> string \<Rightarrow> bool" where
  "test_word lit s = test_word_from lit False s"

text \<open>
  \<^verbatim>\<open>/\bmax-age=(\d+)\b/i.exec(s)\<close>: the digits captured by the leftmost match. The
  greedy \<^verbatim>\<open>\d+\<close> takes the whole run of digits; giving digits back never helps, since
  no boundary lies between two digits.
\<close>

definition match_max_age :: "string \<Rightarrow> string option" where
  "match_max_age s =
     (case strip_prefix_ci ''max-age='' s of
        None \<Rightarrow> None
      | Some rest \<Rightarrow>
          (let ds = takeWhile is_digit rest in
           if ds \<noteq> [] \<and> boundary_after (dropWhile is_digit rest) then Some ds else None))"

fun exec_max_age_from :: "bool \<Rightarrow> string \<Rightarrow> string option" where
  "exec_max_age_from prev [] = None"
| "exec_max_age_from prev (c # cs) =
     (case (if prev then None else match_max_age (c # cs)) of
        Some ds \<Rightarrow> Some ds
      | None \<Rightarrow> exec_max_age_from (is_word c) cs)"

definition exec_max_age :: "string \<Rightarrow> string option" where
  "exec_max_age s = exec_max_age_from False s"

text \<open>\<^verbatim>\<open>parseInt(ds, 10)\<close> on a string of decimal digits.\<close>

definition digit_val :: "char \<Rightarrow> nat" where
  "digit_val c = of_char c - 48"

definition parseInt :: "string \<Rightarrow> nat" where
  "parseInt ds = foldl (\<lambda>n c. 10 * n + digit_val c) 0 ds"

section \<open>Requests, responses and their headers\<close>

text \<open>
  Requests and responses come from the HTTP client library. Both carry a URL and the raw
  header list, which alternates names and values. A response adds a body, a status and a
  status text; the class \<^verbatim>\<open>CachedResponse\<close> extends the response with the cache
  metadata.
\<close>

record base =
  url :: string
  rawHeaders :: "string list"

text \<open>The field \<open>req_method\<close> is the property \<^verbatim>\<open>method\<close> of a request.\<close>

record request = base +
  req_method :: string

record 'b response = base +
  body :: 'b
  status :: nat
  statusText :: string

record 'b cached_response = "'b response" +
  ttl :: number
  stored :: real
  varyHeaders :: "(string \<times> string option) list"

text \<open>
  The library's header access: \<^verbatim>\<open>get(name)\<close> returns the value of the first header
  whose name equals \<open>name\<close> up to case, \<^verbatim>\<open>undefined\<close> (here \<open>None\<close>) when there is
  none; \<^verbatim>\<open>set(name, value)\<close> removes every header of that name and appends the new one.
\<close>

fun raw_get :: "string list \<Rightarrow> string \<Rightarrow> string option" where
  "raw_get (n # v # rest) key =
     (if lower_string n = lower_string key then Some v else raw_get rest key)"
| "raw_get _ key = None"

fun raw_remove :: "string list \<Rightarrow> string \<Rightarrow> string list" where
  "raw_remove (n # v # rest) key =
     (if lower_string n = lower_string key then raw_remove rest key
      else n # v # raw_remove rest key)"
| "raw_remove hs key = hs"

definition get :: "'z base_scheme \<Rightarrow> string \<Rightarrow> string option" where
  "get r key = raw_get (rawHeaders r) key"

definition set_header :: "'z base_scheme \<Rightarrow> string \<Rightarrow> string \<Rightarrow> 'z base_scheme" where
  "set_header r key v = r\<lparr>rawHeaders := raw_remove (rawHeaders r) key @ [key, v]\<rparr>"

text \<open>A header value is truthy when it is present and not the empty string.\<close>

definition truthy :: "string option \<Rightarrow> bool" where
  "truthy v = (case v of None \<Rightarrow> False | Some s \<Rightarrow> s \<noteq> [])"

text \<open>The library's \<^verbatim>\<open>statusType()\<close>: the hundreds digit of the status.\<close>

definition statusType :: "('b, 'z) response_scheme \<Rightarrow> nat" where
  "statusType r = status r div 100"

section \<open>The header freshness calculator\<close>

record cache_control =
  maxAge :: "number option"
  noCache :: bool
  immutable :: bool
  mustRevalidate :: bool

text \<open>
  \<^verbatim>\<open>getCacheControl\<close>. Without a (non-empty) header the three flags are
  \<^verbatim>\<open>undefined\<close>, which every use reads as false.
\<close>

definition getCacheControl :: "'z base_scheme \<Rightarrow> cache_control" where
  "getCacheControl res =
     (let cacheControl = get res ''Cache-Control'' in
      case cacheControl of
        None \<Rightarrow> \<lparr>maxAge = None, noCache = False, immutable = False, mustRevalidate = False\<rparr>
      | Some cc \<Rightarrow>
          if cc = [] then
            \<lparr>maxAge = None, noCache = False, immutable = False, mustRevalidate = False\<rparr>
          else
            \<lparr>maxAge = (case exec_max_age cc of
                         None \<Rightarrow> None
                       | Some ds \<Rightarrow> Some (Fin (real (parseInt ds) * 1000))),
             noCache = test_word ''no-cache'' cc,
             immutable = test_word ''immutable'' cc,
             mustRevalidate = test_word ''must-revalidate'' cc\<rparr>)"

text \<open>
  \<^verbatim>\<open>getExpiresIn\<close> and \<^verbatim>\<open>getLastModifiedExpiration\<close>. The parameter \<open>dateParse\<close>
  stands for \<^verbatim>\<open>Date.parse\<close>, which yields milliseconds or \<^verbatim>\<open>NaN\<close>.
\<close>

definition getExpiresIn :: "(string \<Rightarrow> number) \<Rightarrow> 'z base_scheme \<Rightarrow> number option" where
  "getExpiresIn dateParse res =
     (let expires = get res ''Expires''; date = get res ''Date'' in
      case (expires, date) of
        (Some e, Some d) \<Rightarrow>
          if e = [] \<or> d = [] then None else Some (js_sub (dateParse e) (dateParse d))
      | _ \<Rightarrow> None)"

definition getLastModifiedExpiration ::
  "(string \<Rightarrow> number) \<Rightarrow> 'z base_scheme \<Rightarrow> number option" where
  "getLastModifiedExpiration dateParse res =
     (let lastModified = get res ''Last-Modified''; date = get res ''Date'' in
      case (lastModified, date) of
        (Some l, Some d) \<Rightarrow>
          if l = [] \<or> d = [] then None
          else Some (js_div_pos (js_sub (dateParse d) (dateParse l)) 10)
      | _ \<Rightarrow> None)"

text \<open>
  \<^verbatim>\<open>getVary\<close> splits the header with \<^verbatim>\<open>vary.split(/ *, */)\<close>: a separator is a
  comma with the spaces around it. \<open>match_sep s\<close> matches the separator at the start of
  \<open>s\<close> and returns what follows it.
\<close>

definition match_sep :: "string \<Rightarrow> string option" where
  "match_sep s =
     (case dropWhile (\<lambda>c. c = CHR '' '') s of
        [] \<Rightarrow> None
      | c # r \<Rightarrow> if c = CHR '','' then Some (dropWhile (\<lambda>c. c = CHR '' '') r) else None)"

lemma match_sep_shorter: "match_sep s = Some r \<Longrightarrow> length r < length s"
proof -
  assume a: "match_sep s = Some r"
  then obtain t where t: "dropWhile (\<lambda>c. c = CHR '' '') s = CHR '','' # t"
    and r: "r = dropWhile (\<lambda>c. c = CHR '' '') t"
    by (auto simp: match_sep_def split: list.splits if_splits)
  have "length r \<le> length t" using r by (simp add: length_dropWhile_le)
  moreover have "length (CHR '','' # t) \<le> length s"
    using length_dropWhile_le [of "\<lambda>c. c = CHR '' ''" s] t by simp
  ultimately show ?thesis by simp
qed

function split_from :: "string \<Rightarrow> string \<Rightarrow> string list" where
  "split_from piece [] = [piece]"
| "split_from piece (c # cs) =
     (case match_sep (c # cs) of
        Some rest \<Rightarrow> piece # split_from [] rest
      | None \<Rightarrow> split_from (piece @ [c]) cs)"
  by pat_completeness auto
termination
  by (relation "measure (\<lambda>(piece, s). length s)") (auto dest: match_sep_shorter)

definition getVary :: "'z base_scheme \<Rightarrow> string list" where
  "getVary res =
     (case get res ''Vary'' of
        None \<Rightarrow> []
      | Some vary \<Rightarrow> if vary = [] then [] else split_from [] vary)"

section \<open>Policies: cacheable, TTL, cache id\<close>

definition cacheables_standard :: "request \<Rightarrow> ('b, 'z) response_scheme \<Rightarrow> bool" where
  "cacheables_standard req res = (status res = 200 \<and> req_method req = ''GET'')"

definition cacheables_always :: "request \<Rightarrow> ('b, 'z) response_scheme \<Rightarrow> bool" where
  "cacheables_always req res = True"

definition ttls_standard ::
  "(string \<Rightarrow> number) \<Rightarrow> number \<Rightarrow> number \<Rightarrow> request \<Rightarrow> ('b, 'z) response_scheme \<Rightarrow> number" where
  "ttls_standard dateParse minTtl maxTtl req res =
     (let cacheControl = getCacheControl res;
          expiresIn = getExpiresIn dateParse res;
          lastModified = getLastModifiedExpiration dateParse res;
          freshness =
            (case maxAge cacheControl of
               Some m \<Rightarrow> m
             | None \<Rightarrow>
                 (case expiresIn of
                    Some e \<Rightarrow> e
                  | None \<Rightarrow> (case lastModified of Some l \<Rightarrow> l | None \<Rightarrow> Fin 0)))
      in js_add minTtl (js_min maxTtl freshness))"

definition ttls_forever :: "request \<Rightarrow> ('b, 'z) response_scheme \<Rightarrow> number" where
  "ttls_forever req res = PInf"

section \<open>Errors, serializers and the plugin's options\<close>

datatype error = Error "string option" string | TypeError string

text \<open>The property \<^verbatim>\<open>err.code\<close>.\<close>

fun code :: "error \<Rightarrow> string option" where
  "code (Error c m) = c"
| "code (TypeError m) = None"

text \<open>
  One call of the completion callback \<^verbatim>\<open>cache(err, contents)\<close>: the error or
  \<^verbatim>\<open>null\<close>, and the contents or \<^verbatim>\<open>null\<close>/\<^verbatim>\<open>undefined\<close>.
\<close>

type_synonym callback = "error option \<times> string option"

text \<open>
  A serializer. \<open>stringify\<close> throws (\<open>Inl\<close>) or returns the body to put into the response,
  together with the calls of the completion callback that it makes, now or later, in
  their order.
\<close>

record 'b serializer =
  name :: string
  parse :: "string \<Rightarrow> error + 'b"
  stringify :: "'b \<Rightarrow> error + ('b \<times> callback list)"

definition getIds_standard :: "'b serializer \<Rightarrow> request \<Rightarrow> string" where
  "getIds_standard ser req = name ser @ ''~'' @ req_method req @ ''~'' @ url req"

text \<open>
  \<^verbatim>\<open>serializers.standard\<close>. The parameters stand for \<^verbatim>\<open>JSON.parse\<close>, which may throw,
  and \<^verbatim>\<open>JSON.stringify\<close>, which may throw and may return \<^verbatim>\<open>undefined\<close>.
\<close>

definition serializers_standard ::
  "(string \<Rightarrow> error + 'b) \<Rightarrow> ('b \<Rightarrow> error + string option) \<Rightarrow> 'b serializer" where
  "serializers_standard json_parse json_stringify =
     \<lparr>name = ''json'',
      parse = json_parse,
      stringify = (\<lambda>v. case json_stringify v of
                          Inl e \<Rightarrow> Inl e
                        | Inr s \<Rightarrow> Inr (v, [(None, s)]))\<rparr>"

text \<open>
  \<^verbatim>\<open>serializers.stream\<close>. A readable stream is the list of the events it emits; a body
  without a \<^verbatim>\<open>pipe\<close> function is \<open>NotStream\<close>. Bytes are characters.
\<close>

type_synonym bytes = "char list"

datatype event = Data bytes | Fail error | End

datatype stream_body = Stream "event list" | NotStream

text \<open>
  The listeners of \<^verbatim>\<open>stringify\<close>, run over the events. The state is the pair of
  \<^verbatim>\<open>length\<close> and \<^verbatim>\<open>strings\<close>; the result lists the calls of the callback.
\<close>

fun on_events :: "int \<Rightarrow> (bytes \<Rightarrow> string) \<Rightarrow> nat \<times> bytes list \<Rightarrow> event list \<Rightarrow> callback list" where
  "on_events maxBufferLength enc (len, strings) [] = []"
| "on_events maxBufferLength enc (len, strings) (Data chunk # es) =
     (if int len > maxBufferLength then on_events maxBufferLength enc (len, strings) es
      else
        (let len' = len + length chunk in
         if int len' \<le> maxBufferLength
         then on_events maxBufferLength enc (len', strings @ [chunk]) es
         else on_events maxBufferLength enc (len', strings) es))"
| "on_events maxBufferLength enc (len, strings) (Fail err # es) =
     (Some err, None) # on_events maxBufferLength enc (len, strings) es"
| "on_events maxBufferLength enc (len, strings) (End # es) =
     (None, if int len > maxBufferLength then None else Some (enc (concat strings)))
       # on_events maxBufferLength enc (len, strings) es"

text \<open>What \<^verbatim>\<open>stream.pipe(s)\<close> hands on: the data and the end, not the errors.\<close>

fun piped :: "event list \<Rightarrow> event list" where
  "piped [] = []"
| "piped (Fail err # es) = piped es"
| "piped (e # es) = e # piped es"

text \<open>The parameters \<open>enc\<close> and \<open>dec\<close> stand for the Base64 encoding and decoding of a buffer.\<close>

definition serializers_stream ::
  "int \<Rightarrow> (bytes \<Rightarrow> string) \<Rightarrow> (string \<Rightarrow> bytes) \<Rightarrow> stream_body serializer" where
  "serializers_stream maxBufferLength enc dec =
     \<lparr>name = ''stream'',
      parse = (\<lambda>v. Inr (Stream [Data (dec v), End])),
      stringify = (\<lambda>stream. case stream of
          NotStream \<Rightarrow>
            Inl (TypeError ''The stream serializer only works for readable `stream` instances'')
        | Stream es \<Rightarrow> Inr (Stream (piped es), on_events maxBufferLength enc (0, []) es))\<rparr>"

section \<open>The revalidation handler\<close>

text \<open>
  A response that reaches the plugin is a plain response or an instance of
  \<^verbatim>\<open>CachedResponse\<close>; the tag is what \<^verbatim>\<open>instanceof\<close> reads.
\<close>

datatype 'b res = Plain "'b response" | Cached "'b cached_response"

fun res_status :: "'b res \<Rightarrow> nat" where
  "res_status (Plain r) = status r"
| "res_status (Cached c) = status c"

fun res_statusText :: "'b res \<Rightarrow> string" where
  "res_statusText (Plain r) = statusText r"
| "res_statusText (Cached c) = statusText c"

fun res_body :: "'b res \<Rightarrow> 'b" where
  "res_body (Plain r) = body r"
| "res_body (Cached c) = body c"

fun res_rawHeaders :: "'b res \<Rightarrow> string list" where
  "res_rawHeaders (Plain r) = rawHeaders r"
| "res_rawHeaders (Cached c) = rawHeaders c"

fun res_url :: "'b res \<Rightarrow> string" where
  "res_url (Plain r) = url r"
| "res_url (Cached c) = url c"

fun res_statusType :: "'b res \<Rightarrow> nat" where
  "res_statusType (Plain r) = statusType r"
| "res_statusType (Cached c) = statusType c"

text \<open>
  What a handler does: the request as the handler leaves it (it sets headers on it), the
  cached response as the handler leaves it (it may assign to its fields), the requests
  forwarded with \<^verbatim>\<open>next()\<close>, and the result, a rejection (\<open>Inl\<close>) or a response.
  The forwarded call \<^verbatim>\<open>next\<close> is a function of the request as it is when the call is
  made; it rejects or resolves to a plain response.
\<close>

record 'b handled =
  h_req :: request
  h_cache :: "'b cached_response"
  h_calls :: "request list"
  h_result :: "error + 'b res"

type_synonym 'b forward = "request \<Rightarrow> error + 'b response"

type_synonym 'b handler = "real \<Rightarrow> request \<Rightarrow> 'b cached_response \<Rightarrow> 'b forward \<Rightarrow> 'b handled"

text \<open>The first half of \<^verbatim>\<open>handlers.standard\<close>: the value of \<^verbatim>\<open>novalidate\<close> before
  the \<^verbatim>\<open>Vary\<close> check, at the time \<open>now\<close>.\<close>

definition novalidate :: "(string \<Rightarrow> number) \<Rightarrow> real \<Rightarrow> 'b cached_response \<Rightarrow> bool" where
  "novalidate dateParse now cache =
     (let cacheControl = getCacheControl cache;
          expiresIn = getExpiresIn dateParse cache;
          lastModified = getLastModifiedExpiration dateParse cache
      in if immutable cacheControl \<or> \<not> noCache cacheControl then
           (case maxAge cacheControl of
              Some m \<Rightarrow>
                js_lt (Fin now) (js_add (Fin (stored cache)) m) \<and> \<not> mustRevalidate cacheControl
            | None \<Rightarrow>
                (case expiresIn of
                   Some e \<Rightarrow> js_lt (Fin now) (js_add (Fin (stored cache)) e)
                 | None \<Rightarrow>
                     (case lastModified of
                        Some l \<Rightarrow> js_lt (Fin now) (js_add (Fin (stored cache)) l)
                      | None \<Rightarrow> \<not> mustRevalidate cacheControl)))
         else False)"

text \<open>The test of one recorded pair, and \<^verbatim>\<open>cache.varyHeaders.some(...)\<close>.\<close>

definition vary_differs :: "request \<Rightarrow> string \<times> string option \<Rightarrow> bool" where
  "vary_differs req kv =
     (case kv of
        (key, None) \<Rightarrow> get req key \<noteq> None
      | (key, Some v) \<Rightarrow> get req key \<noteq> Some v)"

definition varies :: "request \<Rightarrow> 'b cached_response \<Rightarrow> bool" where
  "varies req cache = list_ex (vary_differs req) (varyHeaders cache)"

text \<open>The request after the two conditional headers have been set on it.\<close>

definition conditional_request :: "request \<Rightarrow> 'b cached_response \<Rightarrow> request" where
  "conditional_request req cache =
     (let req1 = (case get cache ''ETag'' of
                    None \<Rightarrow> req
                  | Some e \<Rightarrow> if e = [] then req else set_header req ''If-None-Match'' e)
      in case get cache ''Last-Modified'' of
           None \<Rightarrow> req1
         | Some l \<Rightarrow> if l = [] then req1 else set_header req1 ''If-Modified-Since'' l)"

text \<open>The second half of \<^verbatim>\<open>handlers.standard\<close>: the forwarded call and the merge.\<close>

definition revalidate :: "request \<Rightarrow> 'b cached_response \<Rightarrow> 'b forward \<Rightarrow> 'b handled" where
  "revalidate req cache next =
     (let req' = conditional_request req cache in
      case next req' of
        Inl err \<Rightarrow> \<lparr>h_req = req', h_cache = cache, h_calls = [req'], h_result = Inl err\<rparr>
      | Inr res \<Rightarrow>
          if status res = 304 then
            (let cache' = cache\<lparr>status := status res, statusText := statusText res\<rparr>
             in \<lparr>h_req = req', h_cache = cache', h_calls = [req'],
                 h_result = Inr (Cached cache')\<rparr>)
          else \<lparr>h_req = req', h_cache = cache, h_calls = [req'], h_result = Inr (Plain res)\<rparr>)"

definition handlers_standard :: "(string \<Rightarrow> number) \<Rightarrow> 'b handler" where
  "handlers_standard dateParse now req cache next =
     (if novalidate dateParse now cache \<and> \<not> varies req cache
      then \<lparr>h_req = req, h_cache = cache, h_calls = [], h_result = Inr (Cached cache)\<rparr>
      else revalidate req cache next)"

definition handlers_always :: "'b handler" where
  "handlers_always now req cache next =
     \<lparr>h_req = req, h_cache = cache, h_calls = [], h_result = Inr (Cached cache)\<rparr>"

section \<open>The plugin\<close>

text \<open>The entry serialized to the cache, and what the store returns on a lookup.\<close>

record CacheItem =
  item_body :: string
  item_rawHeaders :: "string list"
  item_url :: string
  item_status :: nat
  item_statusText :: string
  item_varyHeaders :: "(string \<times> string option) list"

record stored_result =
  item :: CacheItem
  result_stored :: real
  result_ttl :: number

text \<open>
  The store behind the promisified client: \<open>store_get id\<close> rejects, or resolves to
  \<^verbatim>\<open>null\<close> or to a result; \<open>store_set id item ttl\<close> tells whether the write rejects.
\<close>

record store =
  store_get :: "string \<Rightarrow> error + stored_result option"
  store_set :: "string \<Rightarrow> CacheItem \<Rightarrow> number \<Rightarrow> error option"

record 'b options =
  serializer :: "'b serializer"
  cacheable :: "request \<Rightarrow> 'b response \<Rightarrow> bool"
  ttl_policy :: "request \<Rightarrow> 'b response \<Rightarrow> number"
  handler :: "'b handler"
  staleFallback :: bool
  getId :: "'b serializer \<Rightarrow> request \<Rightarrow> string"
  waitForCache :: bool

text \<open>The defaults of \<^verbatim>\<open>plugin\<close>.\<close>

definition default_options ::
  "(string \<Rightarrow> number) \<Rightarrow> (string \<Rightarrow> error + 'b) \<Rightarrow> ('b \<Rightarrow> error + string option) \<Rightarrow> 'b options" where
  "default_options dateParse json_parse json_stringify =
     \<lparr>serializer = serializers_standard json_parse json_stringify,
      cacheable = cacheables_standard,
      ttl_policy = ttls_standard dateParse (Fin 0) (Fin (1000 * 60 * 60 * 24 * 365)),
      handler = handlers_standard dateParse,
      staleFallback = True,
      getId = getIds_standard,
      waitForCache = False\<rparr>"

text \<open>A promise settles or stays pending.\<close>

datatype 'a promise = Resolved 'a | Rejected error | Pending

text \<open>
  What a call of the plugin does: the promise it returns, the calls of the store's
  \<^verbatim>\<open>set\<close> (id, item, ttl), the errors handed to \<^verbatim>\<open>catchCacheError\<close>, and the
  requests forwarded.
\<close>

record 'a effect =
  returned :: "'a promise"
  writes :: "(string \<times> CacheItem \<times> number) list"
  caught :: "error list"
  forwarded :: "request list"

text \<open>The item that \<^verbatim>\<open>setCache\<close> builds from the contents and the response.\<close>

definition make_item :: "string \<Rightarrow> ('b, 'z) response_scheme \<Rightarrow> CacheItem" where
  "make_item contents res =
     \<lparr>item_body = contents,
      item_rawHeaders = rawHeaders res,
      item_url = url res,
      item_status = status res,
      item_statusText = statusText res,
      item_varyHeaders = map (\<lambda>key. (key, get res key)) (getVary res)\<rparr>"

text \<open>
  \<^verbatim>\<open>setCache\<close>, run on each call of the completion callback in turn; it returns the
  writes and the errors handed to \<^verbatim>\<open>catchCacheError\<close>.
\<close>

fun setCache ::
  "'b options \<Rightarrow> store \<Rightarrow> string \<Rightarrow> request \<Rightarrow> 'b response \<Rightarrow> callback list \<Rightarrow>
   (string \<times> CacheItem \<times> number) list \<times> error list" where
  "setCache opts st cid req res [] = ([], [])"
| "setCache opts st cid req res ((Some err, contents) # cs) =
     (let (ws, es) = setCache opts st cid req res cs in (ws, err # es))"
| "setCache opts st cid req res ((None, None) # cs) = setCache opts st cid req res cs"
| "setCache opts st cid req res ((None, Some contents) # cs) =
     (let item = make_item contents res;
          t = ttl_policy opts req res;
          (ws, es) = setCache opts st cid req res cs
      in ((cid, item, t) # ws,
          (case store_set st cid item t of None \<Rightarrow> es | Some e \<Rightarrow> e # es)))"

definition shouldCache ::
  "'b options \<Rightarrow> store \<Rightarrow> string \<Rightarrow> request \<Rightarrow> 'b response \<Rightarrow> 'b response effect" where
  "shouldCache opts st cid req res =
     (if \<not> cacheable opts req res then
        \<lparr>returned = Resolved res, writes = [], caught = [], forwarded = []\<rparr>
      else
        (case stringify (serializer opts) (body res) of
           Inl err \<Rightarrow> \<lparr>returned = Rejected err, writes = [], caught = [], forwarded = []\<rparr>
         | Inr (b, calls) \<Rightarrow>
             (let res' = res\<lparr>body := b\<rparr>;
                  (ws, es) = setCache opts st cid req res' calls
              in \<lparr>returned = (if \<not> waitForCache opts \<or> calls \<noteq> [] then Resolved res'
                               else Pending),
                  writes = ws, caught = es, forwarded = []\<rparr>)))"

text \<open>The \<^verbatim>\<open>CachedResponse\<close> that \<^verbatim>\<open>handle\<close> builds from a result of the store and
  the parsed body.\<close>

definition cached_of :: "stored_result \<Rightarrow> 'b \<Rightarrow> 'b cached_response" where
  "cached_of result b =
     \<lparr>url = item_url (item result),
      rawHeaders = item_rawHeaders (item result),
      body = b,
      status = item_status (item result),
      statusText = item_statusText (item result),
      ttl = result_ttl result,
      stored = result_stored result,
      varyHeaders = item_varyHeaders (item result)\<rparr>"

text \<open>\<open>after_forward\<close> puts the forwarded requests in front of what \<^verbatim>\<open>shouldCache\<close> did.\<close>

definition after_forward :: "request list \<Rightarrow> 'b response effect \<Rightarrow> 'b res effect" where
  "after_forward reqs e =
     \<lparr>returned = (case returned e of
                    Resolved r \<Rightarrow> Resolved (Plain r)
                  | Rejected err \<Rightarrow> Rejected err
                  | Pending \<Rightarrow> Pending),
      writes = writes e, caught = caught e, forwarded = reqs @ forwarded e\<rparr>"

definition settled :: "request list \<Rightarrow> 'a promise \<Rightarrow> 'a effect" where
  "settled reqs p = \<lparr>returned = p, writes = [], caught = [], forwarded = reqs\<rparr>"

definition handle :: "'b options \<Rightarrow> store \<Rightarrow> real \<Rightarrow> request \<Rightarrow> 'b forward \<Rightarrow> 'b res effect" where
  "handle opts st now req next =
     (let cid = getId opts (serializer opts) req in
      case store_get st cid of
        Inl err \<Rightarrow> settled [] (Rejected err)
      | Inr None \<Rightarrow>
          (case next req of
             Inl err \<Rightarrow> settled [req] (Rejected err)
           | Inr res \<Rightarrow> after_forward [req] (shouldCache opts st cid req res))
      | Inr (Some result) \<Rightarrow>
          (case parse (serializer opts) (item_body (item result)) of
             Inl err \<Rightarrow> settled [] (Rejected err)
           | Inr b \<Rightarrow>
               (let response = cached_of result b;
                    h = handler opts now req response next
                in case h_result h of
                     Inl err \<Rightarrow>
                       if code err = Some ''EUNAVAILABLE'' \<and> staleFallback opts
                       then settled (h_calls h) (Resolved (Cached (h_cache h)))
                       else settled (h_calls h) (Rejected err)
                   | Inr res \<Rightarrow>
                       if staleFallback opts \<and> res_statusType res = 5
                       then settled (h_calls h) (Resolved (Cached (h_cache h)))
                       else
                         (case res of
                            Cached c \<Rightarrow> settled (h_calls h) (Resolved res)
                          | Plain r \<Rightarrow>
                              after_forward (h_calls h) (shouldCache opts st cid (h_req h) r)))))"

definition forceUpdate :: "'b options \<Rightarrow> store \<Rightarrow> request \<Rightarrow> 'b forward \<Rightarrow> 'b res effect" where
  "forceUpdate opts st req next =
     (case next req of
        Inl err \<Rightarrow> settled [req] (Rejected err)
      | Inr res \<Rightarrow>
          after_forward [req] (shouldCache opts st (getId opts (serializer opts) req) req res))"

section \<open>Example values\<close>

text \<open>
  A stand-in for \<^verbatim>\<open>Date.parse\<close> that knows two dates, ten seconds apart, and
  answers \<^verbatim>\<open>NaN\<close> on anything else.
\<close>

definition example_dateParse :: "string \<Rightarrow> number" where
  "example_dateParse s =
     (if s = ''Thu, 01 Jan 2015 00:00:00 GMT'' then Fin 1420070400000
      else if s = ''Thu, 01 Jan 2015 00:00:10 GMT'' then Fin 1420070410000
      else NaN)"

definition example_request :: request where
  "example_request =
     \<lparr>url = ''http://example.com/cache-control'', rawHeaders = [], req_method = ''GET''\<rparr>"

definition example_gzip_request :: request where
  "example_gzip_request =
     \<lparr>url = ''http://example.com/cache-control'',
      rawHeaders = [''Accept-Encoding'', ''gzip''], req_method = ''GET''\<rparr>"

text \<open>An entry stored at time 1000 with \<^verbatim>\<open>Cache-Control: public, max-age=300\<close>.\<close>

definition example_cache :: "string cached_response" where
  "example_cache =
     \<lparr>url = ''http://example.com/cache-control'',
      rawHeaders = [''Cache-Control'', ''public, max-age=300'', ''ETag'', ''123abc''],
      body = ''success'', status = 200, statusText = ''OK'',
      ttl = Fin 300000, stored = 1000, varyHeaders = []\<rparr>"

text \<open>The same entry with a recorded pair that has a value, and with one that has none.\<close>

definition example_gzip_cache :: "string cached_response" where
  "example_gzip_cache = example_cache\<lparr>varyHeaders := [(''Accept-Encoding'', Some ''gzip'')]\<rparr>"

definition example_null_cache :: "string cached_response" where
  "example_null_cache = example_cache\<lparr>varyHeaders := [(''Accept-Encoding'', None)]\<rparr>"

definition example_not_modified :: "string response" where
  "example_not_modified =
     \<lparr>url = ''http://example.com/cache-control'', rawHeaders = [],
      body = [], status = 304, statusText = ''Not Modified''\<rparr>"

definition example_forward :: "string forward" where
  "example_forward req = Inr example_not_modified"

text \<open>
  Stand-ins for \<^verbatim>\<open>JSON.stringify\<close> and \<^verbatim>\<open>JSON.parse\<close> that know one body, the
  string \<^verbatim>\<open>success\<close>, and its JSON text.
\<close>

definition example_json_text :: string where
  "example_json_text = CHR 0x22 # ''success'' @ [CHR 0x22]"

definition example_json_stringify :: "string \<Rightarrow> error + string option" where
  "example_json_stringify v =
     (if v = ''success'' then Inr (Some example_json_text)
      else Inl (Error None ''not a value of the example''))"

definition example_json_parse :: "string \<Rightarrow> error + string" where
  "example_json_parse s =
     (if s = example_json_text then Inr ''success''
      else Inl (Error None ''not a text of the example''))"

definition example_options :: "string options" where
  "example_options = default_options example_dateParse example_json_parse example_json_stringify"

text \<open>
  The store holds one entry, written at time 1000 from a response with
  \<^verbatim>\<open>Cache-Control: no-cache, max-age=100\<close>.
\<close>

definition example_unavailable_request :: request where
  "example_unavailable_request =
     \<lparr>url = ''http://example.com/unavailable'', rawHeaders = [], req_method = ''GET''\<rparr>"

definition example_result :: stored_result where
  "example_result =
     \<lparr>item = \<lparr>item_body = example_json_text,
               item_rawHeaders = [''Cache-Control'', ''no-cache, max-age=100''],
               item_url = ''http://example.com/unavailable'',
               item_status = 200, item_statusText = ''OK'', item_varyHeaders = []\<rparr>,
      result_stored = 1000, result_ttl = Fin 100000\<rparr>"

definition example_store :: store where
  "example_store =
     \<lparr>store_get = (\<lambda>i. if i = ''json~GET~http://example.com/unavailable''
                         then Inr (Some example_result) else Inr None),
      store_set = (\<lambda>i it t. None)\<rparr>"

text \<open>A forwarded call that fails as unavailable, and one that answers 502.\<close>

definition example_offline :: "string forward" where
  "example_offline req = Inl (Error (Some ''EUNAVAILABLE'') ''Unable to connect'')"

definition example_502 :: "string response" where
  "example_502 =
     \<lparr>url = ''http://example.com/unavailable'', rawHeaders = [], body = [], status = 502,
      statusText = ''Bad Gateway''\<rparr>"

definition example_bad_gateway :: "string forward" where
  "example_bad_gateway req = Inr example_502"

text \<open>A response whose \<^verbatim>\<open>Expires\<close> lies ten seconds before its \<^verbatim>\<open>Date\<close>, and one
  whose \<^verbatim>\<open>Expires\<close> lies ten seconds after it.\<close>

definition example_expired :: "string response" where
  "example_expired =
     \<lparr>url = ''http://example.com/expires'',
      rawHeaders = [''Date'', ''Thu, 01 Jan 2015 00:00:10 GMT'',
                    ''Expires'', ''Thu, 01 Jan 2015 00:00:00 GMT''],
      body = ''success'', status = 200, statusText = ''OK''\<rparr>"

definition example_expiring :: "string response" where
  "example_expiring =
     \<lparr>url = ''http://example.com/expires'',
      rawHeaders = [''Date'', ''Thu, 01 Jan 2015 00:00:00 GMT'',
                    ''Expires'', ''Thu, 01 Jan 2015 00:00:10 GMT''],
      body = ''success'', status = 200, statusText = ''OK''\<rparr>"

definition example_expires_request :: request where
  "example_expires_request =
     \<lparr>url = ''http://example.com/expires'', rawHeaders = [], req_method = ''GET''\<rparr>"

definition example_expired_forward :: "string forward" where
  "example_expired_forward req = Inr example_expired"






text \<open>A response with a \<^verbatim>\<open>Vary\<close> header that names one header the response has and
  one it does not have.\<close>

definition example_vary_response :: "string response" where
  "example_vary_response =
     \<lparr>url = ''http://example.com/cache-control'',
      rawHeaders = [''Cache-Control'', ''max-age=100'',
                    ''Content-Type'', ''text/plain'',
                    ''Vary'', ''Accept-Encoding, Content-Type''],
      body = ''success'', status = 200, statusText = ''OK''\<rparr>"

definition example_vary_forward :: "string forward" where
  "example_vary_forward req = Inr example_vary_response"

text \<open>
  The streaming serializer with a cap of ten bytes, a stream of eleven bytes and a stream
  of ten. The encoder stands for Base64; the example leaves the bytes as they are.
\<close>

definition example_stream_options :: "stream_body options" where
  "example_stream_options =
     \<lparr>serializer = serializers_stream 10 (\<lambda>b. b) (\<lambda>s. s),
      cacheable = cacheables_standard,
      ttl_policy = ttls_standard example_dateParse (Fin 0) (Fin (1000 * 60 * 60 * 24 * 365)),
      handler = handlers_standard example_dateParse,
      staleFallback = True,
      getId = getIds_standard,
      waitForCache = True\<rparr>"

definition example_stream_response :: "string list \<Rightarrow> stream_body response" where
  "example_stream_response chunks =
     \<lparr>url = ''http://example.com/stream'',
      rawHeaders = [''Cache-Control'', ''max-age=100''],
      body = Stream (map Data chunks @ [End]), status = 200, statusText = ''OK''\<rparr>"

definition example_stream_request :: request where
  "example_stream_request =
     \<lparr>url = ''http://example.com/stream'', rawHeaders = [], req_method = ''GET''\<rparr>"

section \<open>The header parser on a plain max-age header\<close>

lemma to_lower_digit: "is_digit c \<Longrightarrow> to_lower c = c"
  by (simp add: to_lower_def is_upper_def is_digit_def)

lemma strip_prefix_ci_self: "strip_prefix_ci lit (lit @ r) = Some r"
  by (induction lit) simp_all

lemma strip_prefix_ci_digit:
  "is_digit d \<Longrightarrow> \<not> is_digit (to_lower l) \<Longrightarrow> strip_prefix_ci (l # ls) (d # r) = None"
  by (auto simp add: to_lower_digit)

lemma test_word_from_digits:
  "\<forall>c \<in> set ds. is_digit c \<Longrightarrow> \<not> is_digit (to_lower l) \<Longrightarrow>
   test_word_from (l # ls) prev ds = False"
  by (induction ds arbitrary: prev) (simp_all add: strip_prefix_ci_digit del: strip_prefix_ci.simps)

lemma match_max_age_digits:
  assumes "ds \<noteq> []" and "\<forall>c \<in> set ds. is_digit c"
  shows "match_max_age (''max-age='' @ ds) = Some ds"
proof -
  have t: "takeWhile is_digit ds = ds" and d: "dropWhile is_digit ds = []"
    using assms(2) by simp_all
  show ?thesis
    unfolding match_max_age_def strip_prefix_ci_self
    using assms(1) by (simp add: t d boundary_after_def)
qed

lemma exec_max_age_from_start:
  "match_max_age s = Some ds \<Longrightarrow> exec_max_age_from False s = Some ds"
  by (cases s) (simp_all add: match_max_age_def)

lemma exec_max_age_digits:
  "ds \<noteq> [] \<Longrightarrow> \<forall>c \<in> set ds. is_digit c \<Longrightarrow> exec_max_age (''max-age='' @ ds) = Some ds"
  unfolding exec_max_age_def by (rule exec_max_age_from_start) (rule match_max_age_digits)

lemma no_directive_in_max_age:
  assumes "\<forall>c \<in> set ds. is_digit c"
  shows "\<not> test_word ''no-cache'' (''max-age='' @ ds)"
    and "\<not> test_word ''immutable'' (''max-age='' @ ds)"
    and "\<not> test_word ''must-revalidate'' (''max-age='' @ ds)"
  using assms
  by (simp_all add: test_word_def to_lower_def is_upper_def is_word_def is_digit_def is_lower_def
      test_word_from_digits [unfolded to_lower_def is_upper_def is_digit_def])

text \<open>The header \<^verbatim>\<open>Cache-Control: max-age=N\<close>, with \<open>N\<close> written in decimal digits.\<close>

lemma getCacheControl_max_age:
  assumes "get res ''Cache-Control'' = Some (''max-age='' @ ds)"
    and "ds \<noteq> []" and "\<forall>c \<in> set ds. is_digit c"
  shows "getCacheControl res =
     \<lparr>maxAge = Some (Fin (real (parseInt ds) * 1000)), noCache = False, immutable = False,
      mustRevalidate = False\<rparr>"
proof -
  have "getCacheControl res =
     \<lparr>maxAge = (case exec_max_age (''max-age='' @ ds) of
                   None \<Rightarrow> None
                 | Some ds \<Rightarrow> Some (Fin (real (parseInt ds) * 1000))),
      noCache = test_word ''no-cache'' (''max-age='' @ ds),
      immutable = test_word ''immutable'' (''max-age='' @ ds),
      mustRevalidate = test_word ''must-revalidate'' (''max-age='' @ ds)\<rparr>"
    using assms(1) by (simp add: getCacheControl_def)
  then show ?thesis
    by (simp only: exec_max_age_digits [OF assms(2,3)] no_directive_in_max_age [OF assms(3)]
        option.case)
qed

section \<open>The revalidation handler: freshness, the Vary check, the merge\<close>

lemma h_calls_revalidate: "h_calls (revalidate req cache next) = [conditional_request req cache]"
  by (simp add: revalidate_def Let_def split: sum.splits)

lemma handlers_standard_fresh:
  "novalidate dateParse now cache \<Longrightarrow> \<not> varies req cache \<Longrightarrow>
   handlers_standard dateParse now req cache next
     = \<lparr>h_req = req, h_cache = cache, h_calls = [], h_result = Inr (Cached cache)\<rparr>"
  by (simp add: handlers_standard_def)

lemma handlers_standard_stale:
  "\<not> (novalidate dateParse now cache \<and> \<not> varies req cache) \<Longrightarrow>
   handlers_standard dateParse now req cache next = revalidate req cache next"
  by (auto simp add: handlers_standard_def)

lemma served_iff:
  "(h_calls (handlers_standard dateParse now req cache next) = [])
     = (novalidate dateParse now cache \<and> \<not> varies req cache)"
  by (simp add: handlers_standard_def h_calls_revalidate)

lemma varies_iff:
  "varies req cache =
     (\<exists>kv \<in> set (varyHeaders cache).
        case kv of (k, None) \<Rightarrow> get req k \<noteq> None | (k, Some v) \<Rightarrow> get req k \<noteq> Some v)"
  by (simp add: varies_def list_ex_iff vary_differs_def)

text \<open>
  Claim C1. Let the stored response have the directive \<^verbatim>\<open>max-age=N\<close> and neither
  \<^verbatim>\<open>no-cache\<close> nor \<^verbatim>\<open>must-revalidate\<close>, and let no recorded Vary pair disqualify it.
  Then \<^verbatim>\<open>handlers.standard\<close> returns the cached response without a forwarded call
  exactly when \<open>now < stored + N * 1000\<close>. At \<open>stored + (N - 1)\<close> seconds it serves the
  cached response; at \<open>stored + (N + 1)\<close> seconds it revalidates: it forwards one request,
  the one that carries the conditional headers.
\<close>

theorem max_age_freshness:
  assumes "maxAge (getCacheControl cache) = Some (Fin (real N * 1000))"
    and "\<not> noCache (getCacheControl cache)"
    and "\<not> mustRevalidate (getCacheControl cache)"
    and "\<not> varies req cache"
  shows "((h_calls (handlers_standard dateParse now req cache next) = []
           \<and> h_result (handlers_standard dateParse now req cache next) = Inr (Cached cache))
          = (now < stored cache + real N * 1000))
       \<and> (now = stored cache + (real N - 1) * 1000 \<longrightarrow>
            h_calls (handlers_standard dateParse now req cache next) = []
            \<and> h_result (handlers_standard dateParse now req cache next) = Inr (Cached cache))
       \<and> (now = stored cache + (real N + 1) * 1000 \<longrightarrow>
            handlers_standard dateParse now req cache next = revalidate req cache next
            \<and> h_calls (handlers_standard dateParse now req cache next)
                = [conditional_request req cache])"
proof -
  have nv: "novalidate dateParse t cache = (t < stored cache + real N * 1000)" for t
    using assms(1-3) by (simp add: novalidate_def Let_def)
  show ?thesis
    using assms(4) by (auto simp add: handlers_standard_def nv h_calls_revalidate)
qed

theorem max_age_freshness_witness:
  "maxAge (getCacheControl example_cache) = Some (Fin (real 300 * 1000))
   \<and> \<not> noCache (getCacheControl example_cache)
   \<and> \<not> mustRevalidate (getCacheControl example_cache)
   \<and> \<not> varies example_request example_cache
   \<and> h_calls (handlers_standard example_dateParse 300000 example_request example_cache
        example_forward) = []
   \<and> h_result (handlers_standard example_dateParse 300000 example_request example_cache
        example_forward) = Inr (Cached example_cache)
   \<and> h_calls (handlers_standard example_dateParse 302000 example_request example_cache
        example_forward) = [conditional_request example_request example_cache]
   \<and> rawHeaders (conditional_request example_request example_cache)
        = [''If-None-Match'', ''123abc'']"
proof -
  have a: "maxAge (getCacheControl example_cache) = Some (Fin (real 300 * 1000))"
    by code_simp
  have b: "\<not> noCache (getCacheControl example_cache)"
    by code_simp
  have c: "\<not> mustRevalidate (getCacheControl example_cache)"
    by code_simp
  have d: "\<not> varies example_request example_cache"
    by code_simp
  have s: "stored example_cache = 1000"
    by (simp add: example_cache_def)
  have e: "rawHeaders (conditional_request example_request example_cache)
        = [''If-None-Match'', ''123abc'']"
    by code_simp
  note t1 = max_age_freshness [OF a b c d, of example_dateParse 300000 example_forward]
  note t2 = max_age_freshness [OF a b c d, of example_dateParse 302000 example_forward]
  from t1 t2 a b c d e show ?thesis
    by (simp add: s h_calls_revalidate)
qed

text \<open>
  Claim C2. When the request proceeds to revalidation and the forwarded response has
  status 304, the response that \<^verbatim>\<open>handlers.standard\<close> returns has the body, the raw
  headers and the URL of the stored entry, and the status and the status text of the
  forwarded response.
\<close>

theorem merge_304:
  assumes "\<not> (novalidate dateParse now cache \<and> \<not> varies req cache)"
    and "next (conditional_request req cache) = Inr res"
    and "status res = 304"
  shows "\<exists>r. h_result (handlers_standard dateParse now req cache next) = Inr r
           \<and> res_body r = body cache
           \<and> res_rawHeaders r = rawHeaders cache
           \<and> res_url r = url cache
           \<and> res_status r = status res
           \<and> res_statusText r = statusText res"
proof -
  have "handlers_standard dateParse now req cache next = revalidate req cache next"
    using assms(1) by (rule handlers_standard_stale)
  then show ?thesis
    using assms(2,3) by (simp add: revalidate_def Let_def)
qed

theorem merge_304_witness:
  "\<not> (novalidate example_dateParse 302000 example_cache
        \<and> \<not> varies example_request example_cache)
   \<and> example_forward (conditional_request example_request example_cache)
        = Inr example_not_modified
   \<and> status example_not_modified = 304
   \<and> (\<exists>r. h_result (handlers_standard example_dateParse 302000 example_request example_cache
              example_forward) = Inr r
           \<and> res_body r = ''success''
           \<and> res_rawHeaders r = [''Cache-Control'', ''public, max-age=300'', ''ETag'', ''123abc'']
           \<and> res_url r = ''http://example.com/cache-control''
           \<and> res_status r = 304
           \<and> res_statusText r = ''Not Modified'')"
proof -
  have a: "\<not> (novalidate example_dateParse 302000 example_cache
        \<and> \<not> varies example_request example_cache)"
    by code_simp
  have b: "example_forward (conditional_request example_request example_cache)
        = Inr example_not_modified"
    by (simp add: example_forward_def)
  have c: "status example_not_modified = 304"
    by (simp add: example_not_modified_def)
  from merge_304 [of example_dateParse 302000 example_cache example_request example_forward
      example_not_modified, OF a b c] a b c show ?thesis
    by (simp add: example_cache_def example_not_modified_def)
qed

text \<open>
  Claim C4. A time-fresh entry is served from the cache exactly when no recorded Vary
  pair disqualifies it: a pair without a value disqualifies when the request has the
  header, a pair with a value when the request's header is not that value. A
  disqualification makes the handler revalidate with the conditional request.
\<close>

theorem vary_check:
  assumes "novalidate dateParse now cache"
  shows "((h_calls (handlers_standard dateParse now req cache next) = []
            \<and> h_result (handlers_standard dateParse now req cache next) = Inr (Cached cache))
          = (\<forall>kv \<in> set (varyHeaders cache).
               case kv of (k, None) \<Rightarrow> get req k = None | (k, Some v) \<Rightarrow> get req k = Some v))
       \<and> ((\<exists>kv \<in> set (varyHeaders cache).
               case kv of (k, None) \<Rightarrow> get req k \<noteq> None | (k, Some v) \<Rightarrow> get req k \<noteq> Some v)
            \<longrightarrow> handlers_standard dateParse now req cache next = revalidate req cache next
              \<and> h_calls (handlers_standard dateParse now req cache next)
                  = [conditional_request req cache])"
proof -
  have v: "(\<not> varies req cache)
      = (\<forall>kv \<in> set (varyHeaders cache).
           case kv of (k, None) \<Rightarrow> get req k = None | (k, Some v) \<Rightarrow> get req k = Some v)"
    by (auto simp add: varies_iff split: option.splits prod.splits)
  show ?thesis
  proof (cases "varies req cache")
    case True
    then have "handlers_standard dateParse now req cache next = revalidate req cache next"
      by (simp add: handlers_standard_def)
    with True v show ?thesis
      by (simp add: h_calls_revalidate)
  next
    case False
    with assms have "handlers_standard dateParse now req cache next
       = \<lparr>h_req = req, h_cache = cache, h_calls = [], h_result = Inr (Cached cache)\<rparr>"
      by (rule handlers_standard_fresh)
    moreover from False have "\<not> (\<exists>kv \<in> set (varyHeaders cache).
               case kv of (k, None) \<Rightarrow> get req k \<noteq> None | (k, Some v) \<Rightarrow> get req k \<noteq> Some v)"
      by (simp add: varies_iff)
    ultimately show ?thesis using False v by simp
  qed
qed

theorem vary_check_witness:
  "novalidate example_dateParse 2000 example_gzip_cache
   \<and> get example_gzip_request ''Accept-Encoding'' = Some ''gzip''
   \<and> h_calls (handlers_standard example_dateParse 2000 example_gzip_request example_gzip_cache
        example_forward) = []
   \<and> h_result (handlers_standard example_dateParse 2000 example_gzip_request example_gzip_cache
        example_forward) = Inr (Cached example_gzip_cache)
   \<and> get example_request ''Accept-Encoding'' = None
   \<and> h_calls (handlers_standard example_dateParse 2000 example_request example_gzip_cache
        example_forward) = [conditional_request example_request example_gzip_cache]"
proof -
  have a: "novalidate example_dateParse 2000 example_gzip_cache"
    by code_simp
  have v: "varyHeaders example_gzip_cache = [(''Accept-Encoding'', Some ''gzip'')]"
    by (simp add: example_gzip_cache_def)
  have g: "get example_gzip_request ''Accept-Encoding'' = Some ''gzip''"
    by code_simp
  have n: "get example_request ''Accept-Encoding'' = None"
    by code_simp
  note t1 = vary_check [OF a, of example_gzip_request example_forward]
  note t2 = vary_check [OF a, of example_request example_forward]
  from t1 t2 a g n show ?thesis
    by (simp add: v h_calls_revalidate)
qed

text \<open>
  Claim C5, as amended. Let a time-fresh entry have a recorded Vary pair without a value
  for the key \<open>k\<close>. If the handler serves the entry from the cache (it forwards nothing),
  then the request does not have the header \<open>k\<close>: the missing value means that the header
  must be absent from the request.
\<close>

theorem vary_absent_value:
  assumes "novalidate dateParse now cache"
    and "(k, None) \<in> set (varyHeaders cache)"
    and "h_calls (handlers_standard dateParse now req cache next) = []"
  shows "get req k = None"
proof -
  from assms(3) have "\<not> varies req cache"
    by (simp add: served_iff)
  with assms(2) show ?thesis
    by (auto simp add: varies_iff)
qed

theorem vary_absent_value_witness:
  "novalidate example_dateParse 2000 example_null_cache
   \<and> (''Accept-Encoding'', None) \<in> set (varyHeaders example_null_cache)
   \<and> h_calls (handlers_standard example_dateParse 2000 example_request example_null_cache
        example_forward) = []
   \<and> get example_request ''Accept-Encoding'' = None"
proof -
  have a: "novalidate example_dateParse 2000 example_null_cache"
    by code_simp
  have b: "(''Accept-Encoding'', None) \<in> set (varyHeaders example_null_cache)"
    by (simp add: example_null_cache_def)
  have c: "h_calls (handlers_standard example_dateParse 2000 example_request example_null_cache
        example_forward) = []"
    by code_simp
  from vary_absent_value [OF a b c] a b c show ?thesis
    by simp
qed

text \<open>
  Claim C5 as the specification states it fails: the entry below is time-fresh and has
  the pair \<open>(Accept-Encoding, absent)\<close>; it is served from the cache to a request without
  that header, and it is not served to a request that has the header.
\<close>

theorem vary_present_counterexample:
  "novalidate example_dateParse 2000 example_null_cache
   \<and> (''Accept-Encoding'', None) \<in> set (varyHeaders example_null_cache)
   \<and> get example_request ''Accept-Encoding'' = None
   \<and> h_calls (handlers_standard example_dateParse 2000 example_request example_null_cache
        example_forward) = []
   \<and> h_result (handlers_standard example_dateParse 2000 example_request example_null_cache
        example_forward) = Inr (Cached example_null_cache)
   \<and> get example_gzip_request ''Accept-Encoding'' = Some ''gzip''
   \<and> h_calls (handlers_standard example_dateParse 2000 example_gzip_request example_null_cache
        example_forward) = [conditional_request example_gzip_request example_null_cache]"
proof -
  have a: "novalidate example_dateParse 2000 example_null_cache"
    by code_simp
  have b: "(''Accept-Encoding'', None) \<in> set (varyHeaders example_null_cache)"
    by (simp add: example_null_cache_def)
  have c: "get example_request ''Accept-Encoding'' = None"
    by code_simp
  have d: "\<not> varies example_request example_null_cache"
    by code_simp
  have e: "get example_gzip_request ''Accept-Encoding'' = Some ''gzip''"
    by code_simp
  have f: "varies example_gzip_request example_null_cache"
    by code_simp
  from a b c d e f show ?thesis
    by (simp add: handlers_standard_def h_calls_revalidate)
qed

section \<open>Stale fallback\<close>

lemma h_cache_standard:
  "h_cache (handlers_standard dateParse now req cache next) = cache
   \<or> (\<exists>c. h_result (handlers_standard dateParse now req cache next) = Inr (Cached c)
          \<and> status c = 304)"
  by (simp add: handlers_standard_def revalidate_def Let_def split: sum.splits)

lemma h_result_standard_Inl:
  "h_result (handlers_standard dateParse now req cache next) = Inl err
   \<longleftrightarrow> \<not> (novalidate dateParse now cache \<and> \<not> varies req cache)
       \<and> next (conditional_request req cache) = Inl err"
  by (auto simp add: handlers_standard_def revalidate_def Let_def split: sum.splits)

text \<open>
  Claim C3. Let the store hold an entry for the request, let \<^verbatim>\<open>staleFallback\<close> be on
  (the default) and the handler be \<^verbatim>\<open>handlers.standard\<close>. If the forwarded
  revalidation call rejects with an error whose code is \<^verbatim>\<open>EUNAVAILABLE\<close>, or the
  handler's response has the status class 5, then \<^verbatim>\<open>handle\<close> resolves to the cached
  response built from the entry, and writes nothing to the store.
\<close>

theorem stale_fallback:
  assumes "store_get st (getId opts (serializer opts) req) = Inr (Some result)"
    and "parse (serializer opts) (item_body (item result)) = Inr b"
    and "staleFallback opts"
    and "handler opts = handlers_standard dateParse"
    and "(\<not> (novalidate dateParse now (cached_of result b) \<and> \<not> varies req (cached_of result b))
          \<and> next (conditional_request req (cached_of result b)) = Inl err
          \<and> code err = Some ''EUNAVAILABLE'')
       \<or> (h_result (handlers_standard dateParse now req (cached_of result b) next) = Inr r
          \<and> res_statusType r = 5)"
  shows "returned (handle opts st now req next) = Resolved (Cached (cached_of result b))
       \<and> writes (handle opts st now req next) = []"
proof -
  let ?H = "handlers_standard dateParse now req (cached_of result b) next"
  from assms(5) have hc: "h_cache ?H = cached_of result b"
  proof
    assume "\<not> (novalidate dateParse now (cached_of result b) \<and> \<not> varies req (cached_of result b))
          \<and> next (conditional_request req (cached_of result b)) = Inl err
          \<and> code err = Some ''EUNAVAILABLE''"
    then have "h_result ?H = Inl err"
      by (simp add: h_result_standard_Inl)
    with h_cache_standard [of dateParse now req "cached_of result b" "next"] show ?thesis
      by auto
  next
    assume a: "h_result ?H = Inr r \<and> res_statusType r = 5"
    show ?thesis
    proof (rule disjE [OF h_cache_standard [of dateParse now req "cached_of result b" "next"]])
      assume "h_cache ?H = cached_of result b"
      then show ?thesis .
    next
      assume "\<exists>c. h_result ?H = Inr (Cached c) \<and> status c = 304"
      then obtain c where "h_result ?H = Inr (Cached c)" and "status c = 304"
        by blast
      with a have False
        by (auto simp add: statusType_def)
      then show ?thesis ..
    qed
  qed
  from assms(5) show ?thesis
  proof
    assume "\<not> (novalidate dateParse now (cached_of result b) \<and> \<not> varies req (cached_of result b))
          \<and> next (conditional_request req (cached_of result b)) = Inl err
          \<and> code err = Some ''EUNAVAILABLE''"
    then have "h_result ?H = Inl err" and "code err = Some ''EUNAVAILABLE''"
      by (simp_all add: h_result_standard_Inl)
    then show ?thesis
      using assms(1-4) hc by (simp add: handle_def Let_def settled_def)
  next
    assume "h_result ?H = Inr r \<and> res_statusType r = 5"
    then show ?thesis
      using assms(1-4) hc by (simp add: handle_def Let_def settled_def)
  qed
qed

theorem stale_fallback_witness:
  "store_get example_store
      (getId example_options (serializer example_options) example_unavailable_request)
     = Inr (Some example_result)
   \<and> parse (serializer example_options) (item_body (item example_result)) = Inr ''success''
   \<and> staleFallback example_options
   \<and> example_offline
        (conditional_request example_unavailable_request (cached_of example_result ''success''))
       = Inl (Error (Some ''EUNAVAILABLE'') ''Unable to connect'')
   \<and> returned (handle example_options example_store 2000 example_unavailable_request
        example_offline) = Resolved (Cached (cached_of example_result ''success''))
   \<and> writes (handle example_options example_store 2000 example_unavailable_request
        example_offline) = []
   \<and> res_statusType (Plain example_502) = 5
   \<and> returned (handle example_options example_store 2000 example_unavailable_request
        example_bad_gateway) = Resolved (Cached (cached_of example_result ''success''))
   \<and> writes (handle example_options example_store 2000 example_unavailable_request
        example_bad_gateway) = []"
proof -
  have a: "store_get example_store
      (getId example_options (serializer example_options) example_unavailable_request)
     = Inr (Some example_result)"
    by code_simp
  have b: "parse (serializer example_options) (item_body (item example_result)) = Inr ''success''"
    by code_simp
  have c: "staleFallback example_options"
    by (simp add: example_options_def default_options_def)
  have d: "handler example_options = handlers_standard example_dateParse"
    by (simp add: example_options_def default_options_def)
  have e1: "\<not> (novalidate example_dateParse 2000 (cached_of example_result ''success'')
        \<and> \<not> varies example_unavailable_request (cached_of example_result ''success''))"
    by code_simp
  have e2: "example_offline
        (conditional_request example_unavailable_request (cached_of example_result ''success''))
       = Inl (Error (Some ''EUNAVAILABLE'') ''Unable to connect'')"
    by (simp add: example_offline_def)
  have e3: "code (Error (Some ''EUNAVAILABLE'') ''Unable to connect'') = Some ''EUNAVAILABLE''"
    by simp
  have f1: "h_result (handlers_standard example_dateParse 2000 example_unavailable_request
        (cached_of example_result ''success'') example_bad_gateway) = Inr (Plain example_502)"
    by code_simp
  have f2: "res_statusType (Plain example_502) = 5"
    by code_simp
  note t1 = stale_fallback [of example_store example_options example_unavailable_request
      example_result "''success''" example_dateParse 2000 example_offline
      "Error (Some ''EUNAVAILABLE'') ''Unable to connect''" "Plain example_502",
      OF a b c d disjI1 [OF conjI [OF e1 conjI [OF e2 e3]]]]
  note t2 = stale_fallback [of example_store example_options example_unavailable_request
      example_result "''success''" example_dateParse 2000 example_bad_gateway
      "Error (Some ''EUNAVAILABLE'') ''Unable to connect''" "Plain example_502",
      OF a b c d disjI2 [OF conjI [OF f1 f2]]]
  from t1 t2 a b c e2 f2 show ?thesis
    by simp
qed

section \<open>The TTL handed to the store\<close>

lemma js_nonneg_min: "js_nonneg a \<Longrightarrow> js_nonneg b \<Longrightarrow> js_nonneg (js_min a b)"
  by (cases a; cases b) simp_all

lemma js_nonneg_add: "js_nonneg a \<Longrightarrow> js_nonneg b \<Longrightarrow> js_nonneg (js_add a b)"
  by (cases a; cases b) simp_all

lemma maxAge_nonneg: "maxAge (getCacheControl res) = Some m \<Longrightarrow> js_nonneg m"
  by (auto simp add: getCacheControl_def Let_def split: option.splits if_splits)

text \<open>
  Claim C6, as amended. \<^verbatim>\<open>ttls.forever\<close> returns \<^verbatim>\<open>Infinity\<close>. With non-negative
  bounds, \<^verbatim>\<open>ttls.standard\<close> returns a non-negative TTL whenever the freshness window it
  reads from the response is non-negative: always when \<^verbatim>\<open>max-age\<close> is present or no
  freshness header is; with \<^verbatim>\<open>Expires\<close> or \<^verbatim>\<open>Last-Modified\<close> only when the difference
  of the parsed dates is a number that is not negative.
\<close>

theorem ttl_nonneg:
  assumes "js_nonneg minTtl" and "js_nonneg maxTtl"
    and "maxAge (getCacheControl res) = None \<longrightarrow>
           (case getExpiresIn dateParse res of
              Some e \<Rightarrow> js_nonneg e
            | None \<Rightarrow>
                (case getLastModifiedExpiration dateParse res of
                   Some l \<Rightarrow> js_nonneg l
                 | None \<Rightarrow> True))"
  shows "js_nonneg (ttls_standard dateParse minTtl maxTtl req res)
       \<and> ttls_forever req res = PInf"
proof -
  let ?f = "case maxAge (getCacheControl res) of
               Some m \<Rightarrow> m
             | None \<Rightarrow>
                 (case getExpiresIn dateParse res of
                    Some e \<Rightarrow> e
                  | None \<Rightarrow>
                      (case getLastModifiedExpiration dateParse res of
                         Some l \<Rightarrow> l
                       | None \<Rightarrow> Fin 0))"
  have f: "js_nonneg ?f"
  proof (cases "maxAge (getCacheControl res)")
    case (Some m)
    then show ?thesis by (simp add: maxAge_nonneg)
  next
    case None
    with assms(3) show ?thesis
      by (simp split: option.splits)
  qed
  have "ttls_standard dateParse minTtl maxTtl req res = js_add minTtl (js_min maxTtl ?f)"
    by (simp add: ttls_standard_def Let_def)
  with f assms(1,2) show ?thesis
    by (simp add: js_nonneg_add js_nonneg_min ttls_forever_def)
qed

theorem ttl_nonneg_witness:
  "js_nonneg (Fin 0) \<and> js_nonneg (Fin (1000 * 60 * 60 * 24 * 365))
   \<and> maxAge (getCacheControl example_expiring) = None
   \<and> getExpiresIn example_dateParse example_expiring = Some (Fin 10000)
   \<and> js_nonneg (ttls_standard example_dateParse (Fin 0) (Fin (1000 * 60 * 60 * 24 * 365))
        example_expires_request example_expiring)
   \<and> ttls_standard example_dateParse (Fin 0) (Fin (1000 * 60 * 60 * 24 * 365))
        example_expires_request example_expiring = Fin 10000"
proof -
  have a: "js_nonneg (Fin 0)" by simp
  have b: "js_nonneg (Fin (1000 * 60 * 60 * 24 * 365))" by simp
  have m: "maxAge (getCacheControl example_expiring) = None"
    by code_simp
  have x: "getExpiresIn example_dateParse example_expiring = Some (Fin 10000)"
    by code_simp
  have c: "maxAge (getCacheControl example_expiring) = None \<longrightarrow>
           (case getExpiresIn example_dateParse example_expiring of
              Some e \<Rightarrow> js_nonneg e
            | None \<Rightarrow>
                (case getLastModifiedExpiration example_dateParse example_expiring of
                   Some l \<Rightarrow> js_nonneg l
                 | None \<Rightarrow> True))"
    by (simp add: x)
  have v: "ttls_standard example_dateParse (Fin 0) (Fin (1000 * 60 * 60 * 24 * 365))
        example_expires_request example_expiring = Fin 10000"
    by code_simp
  from ttl_nonneg [OF a b c, of example_expires_request] a b m x v show ?thesis
    by simp
qed

text \<open>
  Claim C6 as the specification states it fails: for the response whose \<^verbatim>\<open>Expires\<close>
  lies ten seconds before its \<^verbatim>\<open>Date\<close>, the default TTL policy (bounds 0 and one year)
  computes \<open>- 10000\<close>, and \<^verbatim>\<open>forceUpdate\<close> hands that value to the store's \<^verbatim>\<open>set\<close>.
\<close>

theorem ttl_negative_counterexample:
  "js_nonneg (Fin 0) \<and> js_nonneg (Fin (1000 * 60 * 60 * 24 * 365))
   \<and> ttls_standard example_dateParse (Fin 0) (Fin (1000 * 60 * 60 * 24 * 365))
        example_expires_request example_expired = Fin (- 10000)
   \<and> \<not> js_nonneg (ttls_standard example_dateParse (Fin 0) (Fin (1000 * 60 * 60 * 24 * 365))
        example_expires_request example_expired)
   \<and> map (\<lambda>w. (fst w, snd (snd w)))
        (writes (forceUpdate example_options example_store example_expires_request
           example_expired_forward))
       = [(''json~GET~http://example.com/expires'', Fin (- 10000))]"
proof -
  have v: "ttls_standard example_dateParse (Fin 0) (Fin (1000 * 60 * 60 * 24 * 365))
        example_expires_request example_expired = Fin (- 10000)"
    by code_simp
  have w: "map (\<lambda>w. (fst w, snd (snd w)))
        (writes (forceUpdate example_options example_store example_expires_request
           example_expired_forward))
       = [(''json~GET~http://example.com/expires'', Fin (- 10000))]"
    by code_simp
  from v w show ?thesis
    by simp
qed

section \<open>The streaming serializer\<close>

lemma on_events_over:
  "maxBufferLength < int len \<Longrightarrow>
   on_events maxBufferLength enc (len, strings) (map Data chunks @ [End]) = [(None, None)]"
  by (induction chunks) simp_all

lemma on_events_within:
  "int len \<le> maxBufferLength \<Longrightarrow>
   on_events maxBufferLength enc (len, strings) (map Data chunks @ [End]) =
     (if maxBufferLength < int (len + length (concat chunks)) then [(None, None)]
      else [(None, Some (enc (concat (strings @ chunks))))])"
proof (induction chunks arbitrary: len strings)
  case Nil
  then show ?case by simp
next
  case (Cons chunk chunks)
  show ?case
  proof (cases "int (len + length chunk) \<le> maxBufferLength")
    case True
    with Cons.prems Cons.IH [of "len + length chunk" "strings @ [chunk]"] show ?thesis
      by (simp add: Let_def add.assoc)
  next
    case False
    then have "maxBufferLength < int (len + length chunk)" by simp
    then have "on_events maxBufferLength enc (len + length chunk, strings)
        (map Data chunks @ [End]) = [(None, None)]"
      by (rule on_events_over)
    with False Cons.prems show ?thesis
      by (simp add: Let_def)
  qed
qed

lemma on_events_stream:
  "on_events maxBufferLength enc (0, []) (map Data chunks @ [End]) =
     (if maxBufferLength < int (length (concat chunks)) then [(None, None)]
      else [(None, Some (enc (concat chunks)))])"
proof (cases "0 \<le> maxBufferLength")
  case True
  then show ?thesis
    using on_events_within [of 0 maxBufferLength enc "[]" chunks] by simp
next
  case False
  then show ?thesis
    using on_events_over [of maxBufferLength 0 enc "[]" chunks] by simp
qed

lemma piped_data: "piped (map Data chunks @ [End]) = map Data chunks @ [End]"
  by (induction chunks) simp_all

text \<open>
  Claim C7. Take the streaming serializer with the cap \<open>maxBufferLength\<close> and a stream
  that emits the chunks and then ends. If the chunks have more bytes in total than the
  cap, the completion callback is called once, with \<open>(null, null)\<close>, and
  \<^verbatim>\<open>shouldCache\<close> writes nothing to the store. If they have at most as many bytes as the
  cap, the callback is called once, with \<open>null\<close> and the encoding of all the bytes.
\<close>

theorem stream_cap:
  assumes "serializer opts = serializers_stream maxBufferLength enc dec"
    and "body res = Stream (map Data chunks @ [End])"
  shows "(maxBufferLength < int (length (concat chunks)) \<longrightarrow>
            stringify (serializer opts) (body res)
              = Inr (Stream (map Data chunks @ [End]), [(None, None)])
            \<and> writes (shouldCache opts st cid req res) = [])
       \<and> (int (length (concat chunks)) \<le> maxBufferLength \<longrightarrow>
            stringify (serializer opts) (body res)
              = Inr (Stream (map Data chunks @ [End]), [(None, Some (enc (concat chunks)))]))"
proof -
  have s: "stringify (serializer opts) (body res)
      = Inr (Stream (map Data chunks @ [End]),
             if maxBufferLength < int (length (concat chunks)) then [(None, None)]
             else [(None, Some (enc (concat chunks)))])"
    using assms by (simp add: serializers_stream_def piped_data on_events_stream)
  show ?thesis
    by (simp add: s shouldCache_def)
qed

theorem stream_cap_witness:
  "serializer example_stream_options = serializers_stream 10 (\<lambda>b. b) (\<lambda>s. s)
   \<and> length (concat [''hello '', ''world'']) = 11
   \<and> stringify (serializer example_stream_options)
        (body (example_stream_response [''hello '', ''world'']))
       = Inr (Stream (map Data [''hello '', ''world''] @ [End]), [(None, None)])
   \<and> writes (shouldCache example_stream_options example_store ''stream~GET~http://example.com/stream''
        example_stream_request (example_stream_response [''hello '', ''world''])) = []
   \<and> length (concat [''hello'', ''world'']) = 10
   \<and> stringify (serializer example_stream_options)
        (body (example_stream_response [''hello'', ''world'']))
       = Inr (Stream (map Data [''hello'', ''world''] @ [End]), [(None, Some ''helloworld'')])
   \<and> map (\<lambda>w. item_body (fst (snd w)))
        (writes (shouldCache example_stream_options example_store
           ''stream~GET~http://example.com/stream''
           example_stream_request (example_stream_response [''hello'', ''world''])))
       = [''helloworld'']"
proof -
  have a: "serializer example_stream_options = serializers_stream 10 (\<lambda>b. b) (\<lambda>s. s)"
    by (simp add: example_stream_options_def)
  have b: "body (example_stream_response cs) = Stream (map Data cs @ [End])" for cs
    by (simp add: example_stream_response_def)
  have w: "map (\<lambda>w. item_body (fst (snd w)))
        (writes (shouldCache example_stream_options example_store
           ''stream~GET~http://example.com/stream''
           example_stream_request (example_stream_response [''hello'', ''world''])))
       = [''helloworld'']"
    by code_simp
  note t1 = stream_cap [OF a b, of "[''hello '', ''world'']" example_store
      "''stream~GET~http://example.com/stream''" example_stream_request]
  note t2 = stream_cap [OF a b, of "[''hello'', ''world'']" example_store
      "''stream~GET~http://example.com/stream''" example_stream_request]
  from t1 t2 a w show ?thesis
    by simp
qed

section \<open>Responses that are not cached\<close>







section \<open>The Vary pairs recorded at store time\<close>

lemma setCache_writes:
  "w \<in> set (fst (setCache opts st cid req res cs)) \<Longrightarrow>
   \<exists>contents. w = (cid, make_item contents res, ttl_policy opts req res)"
  by (induction opts st cid req res cs rule: setCache.induct)
     (auto simp add: Let_def split: prod.splits)

lemma make_item_body_update:
  "item_varyHeaders (make_item contents (res\<lparr>body := b\<rparr>))
     = map (\<lambda>key. (key, get res key)) (getVary res)"
  by (simp add: make_item_def getVary_def get_def)

lemma shouldCache_writes:
  assumes "w \<in> set (writes (shouldCache opts st cid req res))"
  shows "\<exists>contents b. w = (cid, make_item contents (res\<lparr>body := b\<rparr>),
                     ttl_policy opts req (res\<lparr>body := b\<rparr>))"
proof (cases "cacheable opts req res")
  case False
  with assms show ?thesis by (simp add: shouldCache_def)
next
  case True
  show ?thesis
  proof (cases "stringify (serializer opts) (body res)")
    case (Inl err)
    with True assms show ?thesis by (simp add: shouldCache_def)
  next
    case (Inr bc)
    obtain b calls where bc: "bc = (b, calls)" by (cases bc)
    from True Inr bc assms
    have "w \<in> set (fst (setCache opts st cid req (res\<lparr>body := b\<rparr>) calls))"
      by (simp add: shouldCache_def Let_def split: prod.splits)
    then show ?thesis
      by (blast dest: setCache_writes)
  qed
qed

text \<open>
  Claim C10. Every item that \<^verbatim>\<open>shouldCache\<close> writes records, for each name in the
  split \<^verbatim>\<open>Vary\<close> header of the response, the pair of the name and the response's own
  value of that header. The request is not read: a name whose header the response does
  not carry is recorded without a value.
\<close>

theorem vary_headers_from_response:
  "\<forall>w \<in> set (writes (shouldCache opts st cid req res)).
     item_varyHeaders (fst (snd w)) = map (\<lambda>key. (key, get res key)) (getVary res)
     \<and> (\<forall>key \<in> set (getVary res).
          get res key = None \<longrightarrow> (key, None) \<in> set (item_varyHeaders (fst (snd w))))"
proof
  fix w
  assume "w \<in> set (writes (shouldCache opts st cid req res))"
  then obtain contents b where "w = (cid, make_item contents (res\<lparr>body := b\<rparr>),
      ttl_policy opts req (res\<lparr>body := b\<rparr>))"
    by (blast dest: shouldCache_writes)
  then have v: "item_varyHeaders (fst (snd w)) = map (\<lambda>key. (key, get res key)) (getVary res)"
    by (simp add: make_item_body_update)
  show "item_varyHeaders (fst (snd w)) = map (\<lambda>key. (key, get res key)) (getVary res)
     \<and> (\<forall>key \<in> set (getVary res).
          get res key = None \<longrightarrow> (key, None) \<in> set (item_varyHeaders (fst (snd w))))"
    unfolding v by force
qed

theorem vary_headers_from_response_witness:
  "map fst (writes (shouldCache example_options example_store ''id'' example_gzip_request
      example_vary_response)) = [''id'']
   \<and> getVary example_vary_response = [''Accept-Encoding'', ''Content-Type'']
   \<and> get example_gzip_request ''Accept-Encoding'' = Some ''gzip''
   \<and> get example_vary_response ''Accept-Encoding'' = None
   \<and> map (\<lambda>w. item_varyHeaders (fst (snd w)))
        (writes (shouldCache example_options example_store ''id'' example_gzip_request
           example_vary_response))
       = [[(''Accept-Encoding'', None), (''Content-Type'', Some ''text/plain'')]]"
proof -
  have a: "map fst (writes (shouldCache example_options example_store ''id'' example_gzip_request
      example_vary_response)) = [''id'']"
    by code_simp
  have b: "getVary example_vary_response = [''Accept-Encoding'', ''Content-Type'']"
    by code_simp
  have c: "get example_gzip_request ''Accept-Encoding'' = Some ''gzip''"
    by code_simp
  have d: "get example_vary_response ''Accept-Encoding'' = None"
    by code_simp
  have e: "get example_vary_response ''Content-Type'' = Some ''text/plain''"
    by code_simp
  from a obtain w where w: "writes (shouldCache example_options example_store ''id''
      example_gzip_request example_vary_response) = [w]"
    by (cases "writes (shouldCache example_options example_store ''id''
      example_gzip_request example_vary_response)") auto
  from vary_headers_from_response [of example_options example_store "''id''"
      example_gzip_request example_vary_response] w
  have "item_varyHeaders (fst (snd w))
      = map (\<lambda>key. (key, get example_vary_response key)) (getVary example_vary_response)"
    by simp
  with a b c d e w show ?thesis
    by simp
qed

end
